theory Spec2Isabelle
  imports Complex_Main "HOL-Library.Sublist"
begin

section \<open>Python values\<close>

text \<open>
  A spreadsheet cell read by \<^verbatim>\<open>get_all_records\<close> is a string, an integer or a float;
  \<^verbatim>\<open>row.get(key)\<close> on an absent key is \<^verbatim>\<open>None\<close>. Integers are Python's unbounded ones.
  A float is represented by its \<^verbatim>\<open>repr\<close>, the shortest string that reads back to it
  (\<^verbatim>\<open>2.5\<close>, \<^verbatim>\<open>5.0\<close>, \<^verbatim>\<open>1e+16\<close>, \<^verbatim>\<open>-0.0\<close>, \<^verbatim>\<open>nan\<close>, \<^verbatim>\<open>inf\<close>), which is also its \<^verbatim>\<open>str\<close>; the
  type has more strings than there are floats, so what holds for every \<open>PyFloat\<close> holds for
  every float. A Python string is represented by its UTF-8 encoding.
\<close>

datatype pyval = PyNone | PyStr string | PyInt int | PyFloat string

text \<open>The objects the endpoints return: a scalar, or a dict with string keys (in insertion order).\<close>

datatype pyobj = Val pyval | Dict "(string \<times> pyobj) list"

datatype exn =
    RuntimeError string
  | APIError string
  | AttributeError string
  | KeyError string
  | TypeError string

text \<open>\<^verbatim>\<open>str(e)\<close> of an exception is the message it carries.\<close>

fun str_exn :: "exn \<Rightarrow> string" where
  "str_exn (RuntimeError m) = m"
| "str_exn (APIError m) = m"
| "str_exn (AttributeError m) = m"
| "str_exn (KeyError m) = m"
| "str_exn (TypeError m) = m"

text \<open>What a request handler ends with when it does not return a body.\<close>

datatype failure = HTTPException nat string | Uncaught exn

type_synonym row = "string \<rightharpoonup> pyval"

subsection \<open>Truthiness, \<^verbatim>\<open>or\<close>, \<^verbatim>\<open>str\<close>\<close>

fun truthy :: "pyval \<Rightarrow> bool" where
  "truthy PyNone = False"
| "truthy (PyStr s) = (s \<noteq> [])"
| "truthy (PyInt i) = (i \<noteq> 0)"
| "truthy (PyFloat f) = (f \<noteq> ''0.0'' \<and> f \<noteq> ''-0.0'')"

definition py_or :: "pyval \<Rightarrow> pyval \<Rightarrow> pyval" where
  "py_or a b = (if truthy a then a else b)"

definition digit_char :: "nat \<Rightarrow> char" where
  "digit_char d = ''0123456789'' ! d"

fun str_nat :: "nat \<Rightarrow> string" where
  "str_nat n = (if n < 10 then [digit_char n] else str_nat (n div 10) @ [digit_char (n mod 10)])"

declare str_nat.simps [simp del]

definition str_int :: "int \<Rightarrow> string" where
  "str_int i = (if i < 0 then CHR ''-'' # str_nat (nat (- i)) else str_nat (nat i))"

fun py_str :: "pyval \<Rightarrow> string" where
  "py_str PyNone = ''None''"
| "py_str (PyStr s) = s"
| "py_str (PyInt i) = str_int i"
| "py_str (PyFloat f) = f"

subsection \<open>Dicts\<close>

text \<open>\<^verbatim>\<open>row.get(key)\<close>: the value, or \<^verbatim>\<open>None\<close> when the key is absent.\<close>

definition row_get :: "row \<Rightarrow> string \<Rightarrow> pyval" where
  "row_get r k = (case r k of None \<Rightarrow> PyNone | Some v \<Rightarrow> v)"

text \<open>The name of an object's type, and a string between single quotes, as error messages show them.\<close>

fun type_name :: "pyobj \<Rightarrow> string" where
  "type_name (Val PyNone) = ''NoneType''"
| "type_name (Val (PyStr s)) = ''str''"
| "type_name (Val (PyInt i)) = ''int''"
| "type_name (Val (PyFloat f)) = ''float''"
| "type_name (Dict kvs) = ''dict''"

definition quoted :: "string \<Rightarrow> string" where
  "quoted s = CHR 0x27 # s @ [CHR 0x27]"

text \<open>
  \<^verbatim>\<open>obj[key]\<close> with a string key: \<^verbatim>\<open>KeyError\<close> on a dict without the key, \<^verbatim>\<open>TypeError\<close> on a
  scalar.
\<close>

fun getitem :: "pyobj \<Rightarrow> string \<Rightarrow> exn + pyobj" where
  "getitem (Dict kvs) k = (case map_of kvs k of None \<Rightarrow> Inl (KeyError (quoted k)) | Some v \<Rightarrow> Inr v)"
| "getitem (Val (PyStr s)) k = Inl (TypeError ''string indices must be integers'')"
| "getitem (Val v) k = Inl (TypeError (quoted (type_name (Val v)) @ '' object is not subscriptable''))"

section \<open>The profile mapper\<close>

definition map_row_to_dog :: "row \<Rightarrow> int \<Rightarrow> pyobj" where
  "map_row_to_dog r idx = Dict [
     (''dog_id'', Val (py_or (row_get r ''dog_id'') (PyStr (str_int idx)))),
     (''dog'', Dict [
        (''name'', Val (row_get r ''Name'')),
        (''age'', Val (row_get r ''Age'')),
        (''sex'', Val (row_get r ''Sex'')),
        (''photo_url'', Val (row_get r ''Photo''))]),
     (''owner'', Dict [
        (''name'', Val (row_get r ''Pet owner's name'')),
        (''phone'', Val (row_get r ''Pet owner's phone'')),
        (''preferred_contact'', Val (row_get r ''Preferred contact method''))]),
     (''feeding'', Dict [
        (''times'', Val (row_get r ''Feeding times (you can choose more than one answer)'')),
        (''amount'', Val (row_get r ''  Amount of food per meal  '')),
        (''allergies'', Val (row_get r ''Food or environmental intolerances '')),
        (''allergies_detail'',
           Val (row_get r ''If yes, please details of any food or environmental intolerances:''))]),
     (''walks'', Dict [
        (''frequency'', Val (row_get r ''Going for walks (you can choose more than one answer)'')),
        (''duration'', Val (row_get r ''Approximate duration of each walk (in minutes): ''))]),
     (''behavior'', Dict [
        (''barks_in_reaction_to'',
           Val (row_get r ''Barks in reaction to (If none, please just write 'None'):'')),
        (''afraid_of'', Val (row_get r ''Is afraid of (If none, please just write 'None'):'')),
        (''owners_remark'', Val (row_get r ''Some remarks we need to know:'')),
        (''medical_conditions'', Val (row_get r ''Medical conditions / needs (optional)''))])]"

subsection \<open>Strings: \<^verbatim>\<open>lower\<close> and \<^verbatim>\<open>in\<close>\<close>

definition lower_char :: "char \<Rightarrow> char" where
  "lower_char c =
     (case map_of (zip ''ABCDEFGHIJKLMNOPQRSTUVWXYZ'' ''abcdefghijklmnopqrstuvwxyz'') c of
        None \<Rightarrow> c
      | Some l \<Rightarrow> l)"

definition is_ascii :: "string \<Rightarrow> bool" where
  "is_ascii s = list_all (\<lambda>c. \<not> digit7 c) s"

text \<open>
  \<^verbatim>\<open>s.lower()\<close>. On a string of ASCII characters it folds the letters A to Z. On any other
  string it is Python's Unicode lower-casing, a builtin that is not defined here: the
  parameter \<open>ulower\<close>, on UTF-8 encodings.
\<close>

definition lower :: "(string \<Rightarrow> string) \<Rightarrow> string \<Rightarrow> string" where
  "lower ulower s = (if is_ascii s then map lower_char s else ulower s)"

text \<open>
  \<^verbatim>\<open>sub in s\<close> on strings: \<open>sub\<close> occurs in \<open>s\<close> as a contiguous block. (A UTF-8 encoding
  occurs in another as a block of bytes exactly when it does as a block of characters.)
\<close>

fun str_in :: "string \<Rightarrow> string \<Rightarrow> bool" where
  "str_in sub [] = (sub = [])"
| "str_in sub (c # cs) = (prefix sub (c # cs) \<or> str_in sub cs)"

text \<open>
  Truthiness and \<^verbatim>\<open>or\<close> on objects. The method \<^verbatim>\<open>lower\<close> exists on strings only; on
  any other object the attribute access raises (the message names the object's type).
\<close>

fun truthy_obj :: "pyobj \<Rightarrow> bool" where
  "truthy_obj (Val v) = truthy v"
| "truthy_obj (Dict kvs) = (kvs \<noteq> [])"

definition obj_or :: "pyobj \<Rightarrow> pyobj \<Rightarrow> pyobj" where
  "obj_or a b = (if truthy_obj a then a else b)"

fun lower_method :: "(string \<Rightarrow> string) \<Rightarrow> pyobj \<Rightarrow> exn + string" where
  "lower_method ulower (Val (PyStr s)) = Inr (lower ulower s)"
| "lower_method ulower x =
     Inl (AttributeError (quoted (type_name x) @ '' object has no attribute '' @ quoted ''lower''))"

section \<open>The row source\<close>

text \<open>
  Modelled from the spec: the decorator \<^verbatim>\<open>cached\<close> and the class \<^verbatim>\<open>TTLCache\<close> are
  imported by the source, not defined in it. The cache holds at most one entry (there is one
  key, the empty argument list), together with the clock reading at which it expires: the
  reading at which it was stored plus the time-to-live. An entry is served while the clock is
  strictly below its expiry. The decorated function looks the entry up; on a miss it runs the
  body, stores the result only when the body returns, and lets an exception of the body pass.
\<close>

type_synonym 'a ttl_cache = "('a \<times> real) option"

definition cache_lookup :: "real \<Rightarrow> 'a ttl_cache \<Rightarrow> 'a option" where
  "cache_lookup now c =
     (case c of None \<Rightarrow> None | Some (v, expires) \<Rightarrow> if now < expires then Some v else None)"

definition cache_store :: "real \<Rightarrow> real \<Rightarrow> 'a \<Rightarrow> 'a ttl_cache" where
  "cache_store ttl now v = Some (v, now + ttl)"

text \<open>
  The server's state is the cache; \<open>fetches\<close> counts how often the body of
  \<^verbatim>\<open>get_all_rows\<close> has run, that is, how often the spreadsheet was contacted.
\<close>

record server =
  cache :: "row list ttl_cache"
  fetches :: nat

text \<open>
  The body of \<^verbatim>\<open>get_all_rows\<close> talks to the spreadsheet service. Its outcome, were it to
  run now, is a parameter of a call: the clock reading when it ends, and the records it
  returns or the exception it raises.
\<close>

type_synonym remote = "real \<times> (exn + row list)"

definition get_all_rows :: "real \<Rightarrow> real \<Rightarrow> remote \<Rightarrow> server \<Rightarrow> (exn + row list) \<times> server" where
  "get_all_rows ttl now rem s =
     (case cache_lookup now (cache s) of
        Some rows \<Rightarrow> (Inr rows, s)
      | None \<Rightarrow>
          (case snd rem of
             Inl e \<Rightarrow> (Inl e, s\<lparr>fetches := fetches s + 1\<rparr>)
           | Inr rows \<Rightarrow>
               (Inr rows, s\<lparr>cache := cache_store ttl (fst rem) rows, fetches := fetches s + 1\<rparr>)))"

section \<open>The query layer\<close>

subsection \<open>Listing with filters\<close>

text \<open>
  The test \<^verbatim>\<open>f and f.lower() not in (dog_obj[sec][fld] or "").lower()\<close> of the loop: whether
  the filter \<open>f\<close> rejects the profile. \<^verbatim>\<open>and\<close> does not evaluate its right operand when
  the filter is \<^verbatim>\<open>None\<close> or empty.
\<close>

definition rejects ::
  "(string \<Rightarrow> string) \<Rightarrow> string option \<Rightarrow> pyobj \<Rightarrow> string \<Rightarrow> string \<Rightarrow> exn + bool" where
  "rejects ulower f dog_obj sec fld =
     (case f of
        None \<Rightarrow> Inr False
      | Some q \<Rightarrow>
          if q = [] then Inr False
          else
            (case getitem dog_obj sec of
               Inl e \<Rightarrow> Inl e
             | Inr d \<Rightarrow>
                 (case getitem d fld of
                    Inl e \<Rightarrow> Inl e
                  | Inr x \<Rightarrow>
                      (case lower_method ulower (obj_or x (Val (PyStr []))) of
                         Inl e \<Rightarrow> Inl e
                       | Inr t \<Rightarrow> Inr (\<not> str_in (lower ulower q) t)))))"

text \<open>
  The body of the loop after the mapping: whether the profile is appended. The owner filter is
  not evaluated when the dog filter has already rejected the profile.
\<close>

definition keeps ::
  "(string \<Rightarrow> string) \<Rightarrow> string option \<Rightarrow> string option \<Rightarrow> pyobj \<Rightarrow> exn + bool" where
  "keeps ulower dog_name owner_name dog_obj =
     (case rejects ulower dog_name dog_obj ''dog'' ''name'' of
        Inl e \<Rightarrow> Inl e
      | Inr True \<Rightarrow> Inr False
      | Inr False \<Rightarrow>
          (case rejects ulower owner_name dog_obj ''owner'' ''name'' of
             Inl e \<Rightarrow> Inl e
           | Inr True \<Rightarrow> Inr False
           | Inr False \<Rightarrow> Inr True))"

text \<open>The loop over \<^verbatim>\<open>enumerate(rows, start=1)\<close>, with the list \<^verbatim>\<open>filtered\<close> it appends to.\<close>

fun get_dogs_loop ::
  "(string \<Rightarrow> string) \<Rightarrow> string option \<Rightarrow> string option \<Rightarrow> int \<Rightarrow> row list \<Rightarrow> pyobj list
     \<Rightarrow> exn + pyobj list" where
  "get_dogs_loop ulower dog_name owner_name idx [] filtered = Inr filtered"
| "get_dogs_loop ulower dog_name owner_name idx (r # rows) filtered =
     (let dog_obj = map_row_to_dog r idx in
      case keeps ulower dog_name owner_name dog_obj of
        Inl e \<Rightarrow> Inl e
      | Inr False \<Rightarrow> get_dogs_loop ulower dog_name owner_name (idx + 1) rows filtered
      | Inr True \<Rightarrow> get_dogs_loop ulower dog_name owner_name (idx + 1) rows (filtered @ [dog_obj]))"

definition get_dogs ::
  "(string \<Rightarrow> string) \<Rightarrow> real \<Rightarrow> real \<Rightarrow> remote \<Rightarrow> server \<Rightarrow> string option \<Rightarrow> string option
     \<Rightarrow> (failure + pyobj list) \<times> server" where
  "get_dogs ulower ttl now rem s dog_name owner_name =
     (case get_all_rows ttl now rem s of
        (Inl e, s') \<Rightarrow> (Inl (HTTPException 500 (''Failed to read sheet: '' @ str_exn e)), s')
      | (Inr rows, s') \<Rightarrow>
          (case get_dogs_loop ulower dog_name owner_name 1 rows [] of
             Inl e \<Rightarrow> (Inl (Uncaught e), s')
           | Inr filtered \<Rightarrow> (Inr filtered, s')))"

subsection \<open>Lookup by id\<close>

fun get_dog_loop :: "string \<Rightarrow> int \<Rightarrow> row list \<Rightarrow> failure + pyobj" where
  "get_dog_loop dog_id idx [] = Inl (HTTPException 404 ''Dog not found'')"
| "get_dog_loop dog_id idx (r # rows) =
     (let row_id = py_or (row_get r ''dog_id'') (PyStr (str_int idx)) in
      if py_str row_id = dog_id then Inr (map_row_to_dog r idx)
      else get_dog_loop dog_id (idx + 1) rows)"

definition get_dog ::
  "real \<Rightarrow> real \<Rightarrow> remote \<Rightarrow> server \<Rightarrow> string \<Rightarrow> (failure + pyobj) \<times> server" where
  "get_dog ttl now rem s dog_id =
     (case get_all_rows ttl now rem s of
        (Inl e, s') \<Rightarrow> (Inl (HTTPException 500 (''Failed to read sheet: '' @ str_exn e)), s')
      | (Inr rows, s') \<Rightarrow> (get_dog_loop dog_id 1 rows, s'))"

section \<open>Notions used to state the properties\<close>

text \<open>Reading a decimal string back, to say that \<open>str_nat\<close> writes decimal digits.\<close>

definition digit_val :: "char \<Rightarrow> nat" where
  "digit_val c = of_char c - 48"

definition nat_of_digits :: "string \<Rightarrow> nat" where
  "nat_of_digits s = foldl (\<lambda>a c. 10 * a + digit_val c) 0 s"

text \<open>\<^verbatim>\<open>obj[k1][k2]...\<close>: successive subscripting, stopping at the first exception.\<close>

fun getpath :: "pyobj \<Rightarrow> string list \<Rightarrow> exn + pyobj" where
  "getpath obj [] = Inr obj"
| "getpath obj (k # ks) = (case getitem obj k of Inl e \<Rightarrow> Inl e | Inr d \<Rightarrow> getpath d ks)"

text \<open>
  The sections of a profile with their fields, each with the column header it is read from:
  the table that \<^verbatim>\<open>map_row_to_dog\<close> spells out.
\<close>

definition field_table :: "(string \<times> (string \<times> string) list) list" where
  "field_table = [
     (''dog'', [
        (''name'', ''Name''),
        (''age'', ''Age''),
        (''sex'', ''Sex''),
        (''photo_url'', ''Photo'')]),
     (''owner'', [
        (''name'', ''Pet owner's name''),
        (''phone'', ''Pet owner's phone''),
        (''preferred_contact'', ''Preferred contact method'')]),
     (''feeding'', [
        (''times'', ''Feeding times (you can choose more than one answer)''),
        (''amount'', ''  Amount of food per meal  ''),
        (''allergies'', ''Food or environmental intolerances ''),
        (''allergies_detail'', ''If yes, please details of any food or environmental intolerances:'')]),
     (''walks'', [
        (''frequency'', ''Going for walks (you can choose more than one answer)''),
        (''duration'', ''Approximate duration of each walk (in minutes): '')]),
     (''behavior'', [
        (''barks_in_reaction_to'', ''Barks in reaction to (If none, please just write 'None'):''),
        (''afraid_of'', ''Is afraid of (If none, please just write 'None'):''),
        (''owners_remark'', ''Some remarks we need to know:''),
        (''medical_conditions'', ''Medical conditions / needs (optional)'')])]"

text \<open>
  The identifier a row resolves to at a position, and its string form for the row at index
  \<open>i\<close> of a list whose first row has position \<open>k\<close>.
\<close>

definition resolved_id :: "row \<Rightarrow> int \<Rightarrow> pyval" where
  "resolved_id r idx = py_or (row_get r ''dog_id'') (PyStr (str_int idx))"

definition id_str :: "int \<Rightarrow> row list \<Rightarrow> nat \<Rightarrow> string" where
  "id_str k rows i = py_str (resolved_id (rows ! i) (k + int i))"

text \<open>The mapped profiles of a row list, in row order, the first row having position \<open>k\<close>.\<close>

fun profiles :: "int \<Rightarrow> row list \<Rightarrow> pyobj list" where
  "profiles k [] = []"
| "profiles k (r # rows) = map_row_to_dog r k # profiles (k + 1) rows"

text \<open>
  What it means for a profile to satisfy a filter: the filter, in lower case, occurs in the
  lower-cased field as a contiguous block; a field that is not a string counts as empty, and
  an absent filter is satisfied by every profile.
\<close>

definition field_text :: "pyobj \<Rightarrow> string \<Rightarrow> string \<Rightarrow> string" where
  "field_text p sec fld = (case getpath p [sec, fld] of Inr (Val (PyStr t)) \<Rightarrow> t | _ \<Rightarrow> [])"

definition satisfies ::
  "(string \<Rightarrow> string) \<Rightarrow> string option \<Rightarrow> pyobj \<Rightarrow> string \<Rightarrow> string \<Rightarrow> bool" where
  "satisfies ulower f p sec fld =
     (case f of
        None \<Rightarrow> True
      | Some q \<Rightarrow> sublist (lower ulower q) (lower ulower (field_text p sec fld)))"

text \<open>
  A cell on which \<^verbatim>\<open>(cell or "").lower()\<close> is defined: a string, or a value that is not
  truthy (\<^verbatim>\<open>None\<close>, zero).
\<close>

definition text_or_falsy :: "pyval \<Rightarrow> bool" where
  "text_or_falsy v = (case v of PyStr t \<Rightarrow> True | _ \<Rightarrow> \<not> truthy v)"

section \<open>Decimal strings and substrings\<close>

text \<open>
  \<open>str_in\<close> is the substring relation. \<open>str_nat\<close> writes the decimal digits of a number:
  reading the digits back gives the number, so distinct integers have distinct strings.
\<close>

lemma str_in_sublist: "str_in a b = sublist a b"
  by (induction b) (auto simp: sublist_Cons_right)

lemma str_in_Nil: "str_in [] t"
  by (simp add: str_in_sublist)

lemma digit_val_digit_char: "d < 10 \<Longrightarrow> digit_val (digit_char d) = d"
proof -
  assume "d < 10"
  then have "d \<in> {0, 1, 2, 3, 4, 5, 6, 7, 8, 9}" by auto
  then show ?thesis
    by (auto simp: digit_val_def digit_char_def)
qed

lemma nat_of_digits_str_nat: "nat_of_digits (str_nat n) = n"
proof (induction n rule: str_nat.induct)
  case (1 n)
  show ?case
  proof (cases "n < 10")
    case True
    then show ?thesis
      by (subst str_nat.simps) (simp add: nat_of_digits_def digit_val_digit_char)
  next
    case False
    with 1 have IH: "nat_of_digits (str_nat (n div 10)) = n div 10" by simp
    have "n mod 10 < 10" by simp
    then have dv: "digit_val (digit_char (n mod 10)) = n mod 10"
      by (rule digit_val_digit_char)
    from False have "str_nat n = str_nat (n div 10) @ [digit_char (n mod 10)]"
      by (subst str_nat.simps) simp
    then have "nat_of_digits (str_nat n) = 10 * nat_of_digits (str_nat (n div 10)) + n mod 10"
      by (simp add: nat_of_digits_def dv)
    with IH show ?thesis by simp
  qed
qed

lemma str_nat_inj: "str_nat m = str_nat n \<Longrightarrow> m = n"
  by (metis nat_of_digits_str_nat)

lemma str_nat_ne_Nil: "str_nat n \<noteq> []"
  by (subst str_nat.simps) simp

lemma digit_char_not_minus: "d < 10 \<Longrightarrow> digit_char d \<noteq> CHR ''-''"
proof -
  assume "d < 10"
  then have "d \<in> {0, 1, 2, 3, 4, 5, 6, 7, 8, 9}" by auto
  then show ?thesis
    by (auto simp: digit_char_def)
qed

lemma hd_str_nat: "hd (str_nat n) \<noteq> CHR ''-''"
proof (induction n rule: str_nat.induct)
  case (1 n)
  show ?case
  proof (cases "n < 10")
    case True
    then show ?thesis by (subst str_nat.simps) (simp add: digit_char_not_minus)
  next
    case False
    with 1 have "hd (str_nat (n div 10)) \<noteq> CHR ''-''" by simp
    with False show ?thesis
      by (subst str_nat.simps) (simp add: str_nat_ne_Nil)
  qed
qed

lemma str_int_inj: "str_int i = str_int j \<Longrightarrow> i = j"
proof -
  assume eq: "str_int i = str_int j"
  have neg: "\<And>a b. a < 0 \<Longrightarrow> \<not> b < 0 \<Longrightarrow> str_int a \<noteq> str_int b"
  proof
    fix a b :: int assume "a < 0" "\<not> b < 0" "str_int a = str_int b"
    then have "CHR ''-'' # str_nat (nat (- a)) = str_nat (nat b)" by (simp add: str_int_def)
    then have "hd (str_nat (nat b)) = CHR ''-''" by (metis list.sel(1))
    then show False using hd_str_nat by blast
  qed
  show ?thesis
  proof (cases "i < 0"; cases "j < 0")
    assume "i < 0" "j < 0"
    with eq have "nat (- i) = nat (- j)" by (simp add: str_int_def str_nat_inj)
    with \<open>i < 0\<close> \<open>j < 0\<close> show ?thesis by simp
  next
    assume "i < 0" "\<not> j < 0" with neg eq show ?thesis by blast
  next
    assume "\<not> i < 0" "j < 0" with neg eq show ?thesis by metis
  next
    assume "\<not> i < 0" "\<not> j < 0"
    with eq have "nat i = nat j" by (simp add: str_int_def str_nat_inj)
    with \<open>\<not> i < 0\<close> \<open>\<not> j < 0\<close> show ?thesis by simp
  qed
qed

section \<open>Properties of the mapper\<close>

text \<open>
  C1. For every row and every position, the \<open>dog_id\<close> of the mapped profile is the row's own
  \<open>dog_id\<close> value when that value is truthy, and the decimal string of the position otherwise.
\<close>

theorem map_row_to_dog_dog_id:
  "getitem (map_row_to_dog r idx) ''dog_id'' =
     Inr (Val (if truthy (row_get r ''dog_id'') then row_get r ''dog_id'' else PyStr (str_int idx)))"
  by (simp add: map_row_to_dog_def py_or_def)

theorem map_row_to_dog_dog_id_witness:
  "getitem (map_row_to_dog [''dog_id'' \<mapsto> PyStr ''''] 3) ''dog_id'' = Inr (Val (PyStr ''3''))
   \<and> getitem (map_row_to_dog [''dog_id'' \<mapsto> PyStr ''rex-7''] 3) ''dog_id'' = Inr (Val (PyStr ''rex-7''))"
  using map_row_to_dog_dog_id [of "[''dog_id'' \<mapsto> PyStr '''']" 3]
    map_row_to_dog_dog_id [of "[''dog_id'' \<mapsto> PyStr ''rex-7'']" 3]
  by (simp add: row_get_def str_int_def str_nat.simps digit_char_def)

text \<open>The mapper builds exactly the sections and fields of the table, after \<open>dog_id\<close>.\<close>

lemma map_row_to_dog_table:
  "map_row_to_dog r idx =
     Dict ((''dog_id'', Val (resolved_id r idx)) #
           map (\<lambda>(sec, flds). (sec, Dict (map (\<lambda>(fld, hdr). (fld, Val (row_get r hdr))) flds)))
             field_table)"
  by (simp add: map_row_to_dog_def field_table_def resolved_id_def)

text \<open>
  C2. The mapper is a total function without an error result: for every row and position the
  profile has a \<open>dog_id\<close>, and every field of every section can be read from it; the field
  holds what \<^verbatim>\<open>row.get\<close> gives for its header, which is \<^verbatim>\<open>None\<close> when the row lacks the header.
\<close>

theorem map_row_to_dog_total:
  "(\<exists>v. getitem (map_row_to_dog r idx) ''dog_id'' = Inr (Val v))
   \<and> (\<forall>(sec, flds) \<in> set field_table. \<forall>(fld, hdr) \<in> set flds.
         getpath (map_row_to_dog r idx) [sec, fld] = Inr (Val (row_get r hdr))
         \<and> (r hdr = None \<longrightarrow> getpath (map_row_to_dog r idx) [sec, fld] = Inr (Val PyNone)))"
  by (simp add: map_row_to_dog_def field_table_def row_get_def)

theorem map_row_to_dog_total_witness:
  "getpath (map_row_to_dog Map.empty 1) [''walks'', ''duration''] = Inr (Val PyNone)
   \<and> getpath (map_row_to_dog [''Name'' \<mapsto> PyStr ''Rex''] 1) [''dog'', ''name''] = Inr (Val (PyStr ''Rex''))
   \<and> getpath (map_row_to_dog [''Name'' \<mapsto> PyStr ''Rex''] 1) [''owner'', ''phone''] = Inr (Val PyNone)"
  using map_row_to_dog_total [of Map.empty 1] map_row_to_dog_total [of "[''Name'' \<mapsto> PyStr ''Rex'']" 1]
  by (simp add: field_table_def row_get_def)

text \<open>
  C9. The \<open>dog_id\<close> of a profile is not always a string: a row whose \<open>dog_id\<close> cell is the
  number 5 is mapped to a profile whose \<open>dog_id\<close> is that number.
\<close>

theorem dog_id_not_string:
  "getitem (map_row_to_dog [''dog_id'' \<mapsto> PyInt 5] 1) ''dog_id'' = Inr (Val (PyInt 5))"
  by (simp add: map_row_to_dog_def row_get_def py_or_def)

text \<open>It is a string whenever the cell is a string or is not truthy.\<close>

lemma dog_id_string_unless_number:
  assumes "text_or_falsy (row_get r ''dog_id'')"
  shows "\<exists>t. getitem (map_row_to_dog r idx) ''dog_id'' = Inr (Val (PyStr t))"
  using assms
  by (cases "row_get r ''dog_id''") (auto simp: map_row_to_dog_def py_or_def text_or_falsy_def)

section \<open>Properties of the lookup by id\<close>

lemma id_str_0: "id_str k (r # rows) 0 = py_str (resolved_id r k)"
  by (simp add: id_str_def)

lemma id_str_Suc: "id_str k (r # rows) (Suc i) = id_str (k + 1) rows i"
  by (simp add: id_str_def add.assoc)

lemma get_dog_loop_miss:
  "(\<forall>i<length rows. id_str k rows i \<noteq> d) \<Longrightarrow>
   get_dog_loop d k rows = Inl (HTTPException 404 ''Dog not found'')"
proof (induction rows arbitrary: k)
  case Nil
  show ?case by simp
next
  case (Cons r rows)
  from Cons.prems have h0: "py_str (resolved_id r k) \<noteq> d"
    using id_str_0 [of k r rows] by auto
  have "\<forall>i<length rows. id_str (k + 1) rows i \<noteq> d"
  proof (intro allI impI)
    fix i assume "i < length rows"
    then have "Suc i < length (r # rows)" by simp
    with Cons.prems have "id_str k (r # rows) (Suc i) \<noteq> d" by blast
    then show "id_str (k + 1) rows i \<noteq> d" by (simp add: id_str_Suc)
  qed
  then have "get_dog_loop d (k + 1) rows = Inl (HTTPException 404 ''Dog not found'')"
    by (rule Cons.IH)
  with h0 show ?case by (simp add: resolved_id_def)
qed

lemma get_dog_loop_hit:
  "i < length rows \<Longrightarrow> id_str k rows i = d \<Longrightarrow> (\<forall>j<i. id_str k rows j \<noteq> d) \<Longrightarrow>
   get_dog_loop d k rows = Inr (map_row_to_dog (rows ! i) (k + int i))"
proof (induction rows arbitrary: k i)
  case Nil
  then show ?case by simp
next
  case (Cons r rows)
  show ?case
  proof (cases i)
    case 0
    with Cons.prems show ?thesis by (simp add: id_str_0 resolved_id_def)
  next
    case (Suc i')
    with Cons.prems have h0: "py_str (resolved_id r k) \<noteq> d"
      using id_str_0 [of k r rows] by auto
    from Suc Cons.prems have a: "i' < length rows" and b: "id_str (k + 1) rows i' = d"
      by (simp_all add: id_str_Suc)
    have c: "\<forall>j<i'. id_str (k + 1) rows j \<noteq> d"
    proof (intro allI impI)
      fix j assume "j < i'"
      then have "Suc j < i" using Suc by simp
      with Cons.prems have "id_str k (r # rows) (Suc j) \<noteq> d" by blast
      then show "id_str (k + 1) rows j \<noteq> d" by (simp add: id_str_Suc)
    qed
    have "get_dog_loop d (k + 1) rows = Inr (map_row_to_dog (rows ! i') (k + 1 + int i'))"
      using a b c by (rule Cons.IH)
    with h0 Suc show ?thesis by (simp add: resolved_id_def add.assoc)
  qed
qed

lemma first_match_exists:
  fixes n :: nat
  shows "\<exists>i<n. P i \<Longrightarrow> \<exists>i<n. P i \<and> (\<forall>j<i. \<not> P j)"
proof -
  assume "\<exists>i<n. P i"
  then obtain i where i: "i < n" "P i" by blast
  define m where "m = (LEAST i. P i)"
  have "P m" unfolding m_def using i(2) LeastI [of P i] by simp
  moreover have "m \<le> i" unfolding m_def using i(2) Least_le [of P i] by simp
  moreover have "\<forall>j<m. \<not> P j" unfolding m_def using not_less_Least [of _ P] by blast
  ultimately have "m < n \<and> P m \<and> (\<forall>j<m. \<not> P j)" using i(1) by simp
  then show ?thesis by (rule exI [of _ m])
qed

text \<open>
  C5. When the rows are read, the lookup either reports 404 and no row resolves to the
  requested id, or it returns the profile of the first row (lowest position) whose resolved
  id, as a string, equals the requested id; on an empty row list it reports 404.
\<close>

theorem get_dog_first_match:
  assumes "get_all_rows ttl now rem s = (Inr rows, s')"
  shows "((get_dog ttl now rem s dog_id = (Inl (HTTPException 404 ''Dog not found''), s')
            \<and> (\<forall>i<length rows. id_str 1 rows i \<noteq> dog_id))
         \<or> (\<exists>i<length rows. id_str 1 rows i = dog_id \<and> (\<forall>j<i. id_str 1 rows j \<noteq> dog_id)
               \<and> get_dog ttl now rem s dog_id = (Inr (map_row_to_dog (rows ! i) (1 + int i)), s')))
         \<and> (rows = [] \<longrightarrow>
               get_dog ttl now rem s dog_id = (Inl (HTTPException 404 ''Dog not found''), s'))"
proof -
  have main: "(get_dog ttl now rem s dog_id = (Inl (HTTPException 404 ''Dog not found''), s')
            \<and> (\<forall>i<length rows. id_str 1 rows i \<noteq> dog_id))
         \<or> (\<exists>i<length rows. id_str 1 rows i = dog_id \<and> (\<forall>j<i. id_str 1 rows j \<noteq> dog_id)
               \<and> get_dog ttl now rem s dog_id = (Inr (map_row_to_dog (rows ! i) (1 + int i)), s'))"
  proof (cases "\<exists>i<length rows. id_str 1 rows i = dog_id")
    case False
    then have "\<forall>i<length rows. id_str 1 rows i \<noteq> dog_id" by blast
    moreover from this have "get_dog_loop dog_id 1 rows = Inl (HTTPException 404 ''Dog not found'')"
      by (rule get_dog_loop_miss)
    ultimately show ?thesis using assms by (simp add: get_dog_def)
  next
    case True
    then obtain i where i: "i < length rows" "id_str 1 rows i = dog_id" "\<forall>j<i. id_str 1 rows j \<noteq> dog_id"
      using first_match_exists [of "length rows" "\<lambda>i. id_str 1 rows i = dog_id"] by blast
    then have "get_dog_loop dog_id 1 rows = Inr (map_row_to_dog (rows ! i) (1 + int i))"
      by (rule get_dog_loop_hit)
    with i assms show ?thesis by (auto simp: get_dog_def)
  qed
  have empty: "rows = [] \<longrightarrow>
      get_dog ttl now rem s dog_id = (Inl (HTTPException 404 ''Dog not found''), s')"
    using assms by (simp add: get_dog_def)
  from main empty show ?thesis by blast
qed

theorem get_dog_first_match_witness:
  "get_dog 30 0
     (1, Inr [[''dog_id'' \<mapsto> PyStr ''A1''], [''dog_id'' \<mapsto> PyStr ''a1''],
              [''dog_id'' \<mapsto> PyStr ''a1'', ''Name'' \<mapsto> PyStr ''Luna'']])
     \<lparr>cache = None, fetches = 0\<rparr> ''a1''
   = (Inr (map_row_to_dog [''dog_id'' \<mapsto> PyStr ''a1''] 2),
      \<lparr>cache = Some ([[''dog_id'' \<mapsto> PyStr ''A1''], [''dog_id'' \<mapsto> PyStr ''a1''],
              [''dog_id'' \<mapsto> PyStr ''a1'', ''Name'' \<mapsto> PyStr ''Luna'']], 31), fetches = 1\<rparr>)"
proof -
  let ?rows = "[[''dog_id'' \<mapsto> PyStr ''A1''], [''dog_id'' \<mapsto> PyStr ''a1''],
              [''dog_id'' \<mapsto> PyStr ''a1'', ''Name'' \<mapsto> PyStr ''Luna'']]"
  have h: "get_all_rows 30 0 (1, Inr ?rows) \<lparr>cache = None, fetches = 0\<rparr>
      = (Inr ?rows, \<lparr>cache = Some (?rows, 31), fetches = 1\<rparr>)"
    by (simp add: get_all_rows_def cache_lookup_def cache_store_def)
  have i0: "id_str 1 ?rows 0 = ''A1''" and i1: "id_str 1 ?rows 1 = ''a1''"
    by (simp_all add: id_str_def resolved_id_def row_get_def py_or_def)
  from get_dog_first_match [OF h, of "''a1''"] i0 i1
  show ?thesis
    by (auto simp: less_Suc_eq numeral_3_eq_3 id_str_def resolved_id_def row_get_def py_or_def)
qed






section \<open>Properties of the listing\<close>

lemma rejects_None: "rejects ulower None p sec fld = Inr False"
  by (simp add: rejects_def)

lemma keeps_True:
  "keeps ulower dn ow p = Inr True \<longleftrightarrow>
     rejects ulower dn p ''dog'' ''name'' = Inr False \<and> rejects ulower ow p ''owner'' ''name'' = Inr False"
  by (auto simp: keeps_def split: sum.splits bool.splits)

lemma keeps_dog_only:
  "keeps ulower dn None p = Inr b \<longleftrightarrow> rejects ulower dn p ''dog'' ''name'' = Inr (\<not> b)"
  by (auto simp: keeps_def rejects_def split: sum.splits bool.splits)

lemma keeps_owner_only:
  "keeps ulower None ow p = Inr b \<longleftrightarrow> rejects ulower ow p ''owner'' ''name'' = Inr (\<not> b)"
  by (auto simp: keeps_def rejects_def split: sum.splits bool.splits)

lemma keeps_both_returns:
  "keeps ulower dn None p = Inr a \<Longrightarrow> keeps ulower None ow p = Inr b \<Longrightarrow> \<exists>c. keeps ulower dn ow p = Inr c"
  by (auto simp: keeps_def rejects_def split: sum.splits bool.splits option.splits if_splits)

text \<open>
  The loop returns exactly when no profile makes a filter test raise, and then it returns the
  profiles it keeps, in row order, after what \<open>filtered\<close> held.
\<close>

lemma get_dogs_loop_char:
  "get_dogs_loop ulower dn ow k rows acc = Inr ps \<longleftrightarrow>
     (\<forall>p\<in>set (profiles k rows). \<exists>b. keeps ulower dn ow p = Inr b)
     \<and> ps = acc @ [p \<leftarrow> profiles k rows. keeps ulower dn ow p = Inr True]"
proof (induction rows arbitrary: k acc)
  case Nil
  show ?case by auto
next
  case (Cons r rows)
  show ?case
  proof (cases "keeps ulower dn ow (map_row_to_dog r k)")
    case (Inl e)
    then show ?thesis by auto
  next
    case (Inr b)
    then show ?thesis using Cons.IH [of "k + 1"] by (cases b) auto
  qed
qed

text \<open>
  C3. The listing does not return the matching profiles for every row list: on a row whose
  \<open>Name\<close> cell is the number 5, with a dog-name filter, the handler ends with an uncaught
  \<^verbatim>\<open>AttributeError\<close>.
\<close>

theorem get_dogs_numeric_name_raises:
  "get_dogs ulower 30 0 (1, Inr [[''Name'' \<mapsto> PyInt 5]]) \<lparr>cache = None, fetches = 0\<rparr> (Some ''5'') None =
     (Inl (Uncaught (AttributeError (quoted ''int'' @ '' object has no attribute '' @ quoted ''lower''))),
      \<lparr>cache = Some ([[''Name'' \<mapsto> PyInt 5]], 31), fetches = 1\<rparr>)"
  by (simp add: get_dogs_def get_all_rows_def cache_lookup_def cache_store_def keeps_def rejects_def
      map_row_to_dog_def row_get_def obj_or_def)

text \<open>
  On rows whose two name cells are strings or not truthy (absent, zero), the listing returns
  the profiles that satisfy both filters, in row order.
\<close>

lemma rejects_text:
  assumes "getpath p [sec, fld] = Inr (Val v)" and "text_or_falsy v"
  shows "rejects ulower f p sec fld = Inr (\<not> satisfies ulower f p sec fld)"
proof (cases f)
  case None
  then show ?thesis by (simp add: rejects_def satisfies_def)
next
  case (Some q)
  from assms(1) obtain d where d: "getitem p sec = Inr d" "getitem d fld = Inr (Val v)"
    by (auto split: sum.splits)
  from assms have ft: "field_text p sec fld = (case v of PyStr t \<Rightarrow> t | _ \<Rightarrow> [])"
    by (simp add: field_text_def split: pyval.splits)
  from assms(2) have lm: "lower_method ulower (obj_or (Val v) (Val (PyStr []))) =
      Inr (lower ulower (case v of PyStr t \<Rightarrow> t | _ \<Rightarrow> []))"
    by (cases v) (auto simp: text_or_falsy_def obj_or_def lower_def is_ascii_def)
  show ?thesis
  proof (cases "q = []")
    case True
    with Some show ?thesis by (simp add: rejects_def satisfies_def lower_def is_ascii_def)
  next
    case False
    with Some d lm ft show ?thesis
      by (simp add: rejects_def satisfies_def str_in_sublist)
  qed
qed

lemma profiles_set: "p \<in> set (profiles k rows) \<Longrightarrow> \<exists>r\<in>set rows. \<exists>idx. p = map_row_to_dog r idx"
  by (induction rows arbitrary: k) auto

lemma getpath_dog_name: "getpath (map_row_to_dog r idx) [''dog'', ''name''] = Inr (Val (row_get r ''Name''))"
  by (simp add: map_row_to_dog_def)

lemma getpath_owner_name:
  "getpath (map_row_to_dog r idx) [''owner'', ''name''] = Inr (Val (row_get r ''Pet owner's name''))"
  by (simp add: map_row_to_dog_def)

lemma get_dogs_loop_text_names:
  assumes "\<forall>r\<in>set rows. text_or_falsy (row_get r ''Name'')
              \<and> text_or_falsy (row_get r ''Pet owner's name'')"
  shows "get_dogs_loop ulower dn ow 1 rows [] =
           Inr [p \<leftarrow> profiles 1 rows. satisfies ulower dn p ''dog'' ''name'' \<and> satisfies ulower ow p ''owner'' ''name'']"
proof -
  have rej: "rejects ulower dn p ''dog'' ''name'' = Inr (\<not> satisfies ulower dn p ''dog'' ''name'')
       \<and> rejects ulower ow p ''owner'' ''name'' = Inr (\<not> satisfies ulower ow p ''owner'' ''name'')"
    if "p \<in> set (profiles 1 rows)" for p
  proof -
    from that obtain r idx where r: "r \<in> set rows" "p = map_row_to_dog r idx"
      using profiles_set by blast
    with assms have t: "text_or_falsy (row_get r ''Name'')"
      "text_or_falsy (row_get r ''Pet owner's name'')" by auto
    show ?thesis
      unfolding r(2)
      using rejects_text [OF getpath_dog_name t(1)] rejects_text [OF getpath_owner_name t(2)]
      by blast
  qed
  then have k: "keeps ulower dn ow p = Inr (satisfies ulower dn p ''dog'' ''name'' \<and> satisfies ulower ow p ''owner'' ''name'')"
    if "p \<in> set (profiles 1 rows)" for p
    using rej [OF that] by (simp add: keeps_def split: bool.splits)
  have "[p \<leftarrow> profiles 1 rows. keeps ulower dn ow p = Inr True] =
        [p \<leftarrow> profiles 1 rows. satisfies ulower dn p ''dog'' ''name'' \<and> satisfies ulower ow p ''owner'' ''name'']"
    by (rule filter_cong) (simp_all add: k)
  moreover have "\<forall>p\<in>set (profiles 1 rows). \<exists>b. keeps ulower dn ow p = Inr b"
    using k by blast
  ultimately show ?thesis by (simp add: get_dogs_loop_char)
qed

lemma rex_example:
  "get_dogs_loop ulower (Some ''Rex'') None 1 [[''Name'' \<mapsto> PyStr ''T-Rex Jr'']] [] =
     Inr [map_row_to_dog [''Name'' \<mapsto> PyStr ''T-Rex Jr''] 1]"
  by (simp add: keeps_def rejects_def map_row_to_dog_def row_get_def obj_or_def lower_def is_ascii_def lower_char_def)

text \<open>
  When the listing with the dog filter alone and the listing with the owner filter alone
  both return, the listing with both filters returns too; its result is each single-filter
  result restricted to the members of the other (their intersection, in row order), it is the
  owner filter applied to the dog-filtered result and the dog filter applied to the
  owner-filtered result, and filtering any of the three results again keeps all of it.
\<close>

lemma filters_commute_intersect:
  assumes "get_dogs_loop ulower dn None 1 rows [] = Inr ps_d"
    and "get_dogs_loop ulower None ow 1 rows [] = Inr ps_o"
  shows "\<exists>ps. get_dogs_loop ulower dn ow 1 rows [] = Inr ps
           \<and> ps = [p \<leftarrow> ps_d. p \<in> set ps_o]
           \<and> ps = [p \<leftarrow> ps_o. p \<in> set ps_d]
           \<and> set ps = set ps_d \<inter> set ps_o
           \<and> ps = [p \<leftarrow> ps_d. keeps ulower None ow p = Inr True]
           \<and> ps = [p \<leftarrow> ps_o. keeps ulower dn None p = Inr True]
           \<and> [p \<leftarrow> ps. keeps ulower dn ow p = Inr True] = ps
           \<and> [p \<leftarrow> ps_d. keeps ulower dn None p = Inr True] = ps_d
           \<and> [p \<leftarrow> ps_o. keeps ulower None ow p = Inr True] = ps_o"
proof -
  let ?all = "profiles 1 rows"
  from assms(1) have d: "\<forall>p\<in>set ?all. \<exists>b. keeps ulower dn None p = Inr b"
    and psd: "ps_d = [p \<leftarrow> ?all. keeps ulower dn None p = Inr True]"
    by (simp_all add: get_dogs_loop_char)
  from assms(2) have o: "\<forall>p\<in>set ?all. \<exists>b. keeps ulower None ow p = Inr b"
    and pso: "ps_o = [p \<leftarrow> ?all. keeps ulower None ow p = Inr True]"
    by (simp_all add: get_dogs_loop_char)
  define ps where "ps = [p \<leftarrow> ?all. keeps ulower dn ow p = Inr True]"
  have "\<forall>p\<in>set ?all. \<exists>b. keeps ulower dn ow p = Inr b"
    using d o keeps_both_returns by blast
  then have run: "get_dogs_loop ulower dn ow 1 rows [] = Inr ps"
    by (simp add: get_dogs_loop_char ps_def)
  have ps_eq: "ps = [p \<leftarrow> ?all. keeps ulower dn None p = Inr True \<and> keeps ulower None ow p = Inr True]"
    unfolding ps_def by (simp add: keeps_True rejects_None)
  have a: "ps = [p \<leftarrow> ps_d. p \<in> set ps_o]"
    unfolding ps_eq psd pso by (auto intro: filter_cong)
  have b: "ps = [p \<leftarrow> ps_o. p \<in> set ps_d]"
    unfolding ps_eq psd pso by (auto intro: filter_cong)
  have c: "set ps = set ps_d \<inter> set ps_o"
    unfolding ps_eq psd pso by auto
  have e: "ps = [p \<leftarrow> ps_d. keeps ulower None ow p = Inr True]"
    unfolding ps_eq psd by simp
  have f: "ps = [p \<leftarrow> ps_o. keeps ulower dn None p = Inr True]"
    unfolding ps_eq pso by (auto intro: filter_cong)
  have g: "[p \<leftarrow> ps. keeps ulower dn ow p = Inr True] = ps"
    unfolding ps_def by simp
  have h: "[p \<leftarrow> ps_d. keeps ulower dn None p = Inr True] = ps_d"
    unfolding psd by simp
  have i: "[p \<leftarrow> ps_o. keeps ulower None ow p = Inr True] = ps_o"
    unfolding pso by simp
  from run a b c e f g h i show ?thesis by blast
qed

lemma filters_commute_intersect_example:
  "get_dogs_loop ulower (Some ''rex'') (Some ''jane'') 1
     [[''Name'' \<mapsto> PyStr ''T-Rex Jr'', ''Pet owner's name'' \<mapsto> PyStr ''Jane Doe''],
      [''Name'' \<mapsto> PyStr ''Rex'', ''Pet owner's name'' \<mapsto> PyStr ''Bob''],
      [''Name'' \<mapsto> PyStr ''Luna'', ''Pet owner's name'' \<mapsto> PyStr ''JANE'']] []
   = Inr [map_row_to_dog [''Name'' \<mapsto> PyStr ''T-Rex Jr'', ''Pet owner's name'' \<mapsto> PyStr ''Jane Doe''] 1]"
proof -
  let ?r1 = "[''Name'' \<mapsto> PyStr ''T-Rex Jr'', ''Pet owner's name'' \<mapsto> PyStr ''Jane Doe'']"
  let ?r2 = "[''Name'' \<mapsto> PyStr ''Rex'', ''Pet owner's name'' \<mapsto> PyStr ''Bob'']"
  let ?r3 = "[''Name'' \<mapsto> PyStr ''Luna'', ''Pet owner's name'' \<mapsto> PyStr ''JANE'']"
  have hd: "get_dogs_loop ulower (Some ''rex'') None 1 [?r1, ?r2, ?r3] [] =
      Inr [map_row_to_dog ?r1 1, map_row_to_dog ?r2 2]"
    by (simp add: keeps_def rejects_def map_row_to_dog_def row_get_def obj_or_def lower_def is_ascii_def lower_char_def)
  have ho: "get_dogs_loop ulower None (Some ''jane'') 1 [?r1, ?r2, ?r3] [] =
      Inr [map_row_to_dog ?r1 1, map_row_to_dog ?r3 3]"
    by (simp add: keeps_def rejects_def map_row_to_dog_def row_get_def obj_or_def lower_def is_ascii_def lower_char_def)
  have ne: "map_row_to_dog ?r2 2 \<noteq> map_row_to_dog ?r1 1" "map_row_to_dog ?r2 2 \<noteq> map_row_to_dog ?r3 3"
    by (simp_all add: map_row_to_dog_def row_get_def)
  from filters_commute_intersect [OF hd ho] ne show ?thesis by auto
qed

text \<open>
  C4. Applying both filters does not always yield the intersection of the results of applying
  each alone: on a row whose dog name is \<^verbatim>\<open>Luna\<close> and whose owner-name cell is the number 5,
  the listing with both filters and the listing with the dog filter alone return the empty
  list, while the listing with the owner filter alone ends with an uncaught
  \<^verbatim>\<open>AttributeError\<close> and has no result.
\<close>

theorem owner_filter_alone_raises:
  "fst (get_dogs ulower 30 0
          (1, Inr [[''Name'' \<mapsto> PyStr ''Luna'', ''Pet owner's name'' \<mapsto> PyInt 5]])
          \<lparr>cache = None, fetches = 0\<rparr> (Some ''rex'') (Some ''5'')) = Inr []
   \<and> fst (get_dogs ulower 30 0
          (1, Inr [[''Name'' \<mapsto> PyStr ''Luna'', ''Pet owner's name'' \<mapsto> PyInt 5]])
          \<lparr>cache = None, fetches = 0\<rparr> (Some ''rex'') None) = Inr []
   \<and> fst (get_dogs ulower 30 0
          (1, Inr [[''Name'' \<mapsto> PyStr ''Luna'', ''Pet owner's name'' \<mapsto> PyInt 5]])
          \<lparr>cache = None, fetches = 0\<rparr> None (Some ''5''))
       = Inl (Uncaught (AttributeError
           (quoted ''int'' @ '' object has no attribute '' @ quoted ''lower'')))"
proof -
  let ?rows = "[[''Name'' \<mapsto> PyStr ''Luna'', ''Pet owner's name'' \<mapsto> PyInt 5]]"
  have fetch: "get_all_rows 30 0 (1, Inr ?rows) \<lparr>cache = None, fetches = 0\<rparr> =
      (Inr ?rows, \<lparr>cache = Some (?rows, 31), fetches = 1\<rparr>)"
    by (simp add: get_all_rows_def cache_lookup_def cache_store_def)
  have both: "get_dogs_loop ulower (Some ''rex'') (Some ''5'') 1 ?rows [] = Inr []"
    by (simp add: keeps_def rejects_def map_row_to_dog_def row_get_def obj_or_def lower_def
        is_ascii_def lower_char_def)
  have dog: "get_dogs_loop ulower (Some ''rex'') None 1 ?rows [] = Inr []"
    by (simp add: keeps_def rejects_def map_row_to_dog_def row_get_def obj_or_def lower_def
        is_ascii_def lower_char_def)
  have owner: "get_dogs_loop ulower None (Some ''5'') 1 ?rows [] =
      Inl (AttributeError (quoted ''int'' @ '' object has no attribute '' @ quoted ''lower''))"
    by (simp add: keeps_def rejects_def map_row_to_dog_def row_get_def obj_or_def)
  show ?thesis
    by (simp add: get_dogs_def fetch both dog owner del: get_dogs_loop.simps)
qed

section \<open>Properties of the row source\<close>

text \<open>
  C6. After a call that returned rows, the cache holds them with an expiry; a fresh fetch sets
  the expiry to the end of the fetch plus the time-to-live. Any call before the expiry returns
  the same rows and leaves the state, and so the number of fetches, unchanged: the two calls
  together contact the spreadsheet at most once. Any call at or after the expiry contacts the
  spreadsheet again.
\<close>

theorem cached_rows_within_ttl:
  assumes "get_all_rows ttl t1 rem1 s = (Inr rows, s1)"
  shows "\<exists>expires. cache s1 = Some (rows, expires)
           \<and> fetches s1 \<le> fetches s + 1
           \<and> (cache_lookup t1 (cache s) = None \<longrightarrow> expires = fst rem1 + ttl \<and> fetches s1 = fetches s + 1)
           \<and> (\<forall>t2 rem2. t2 < expires \<longrightarrow> get_all_rows ttl t2 rem2 s1 = (Inr rows, s1))
           \<and> (\<forall>t2 rem2. expires \<le> t2 \<longrightarrow>
                 fst (get_all_rows ttl t2 rem2 s1) = snd rem2
                 \<and> fetches (snd (get_all_rows ttl t2 rem2 s1)) = fetches s1 + 1)"
proof (cases "cache_lookup t1 (cache s)")
  case None
  with assms obtain rs where r: "snd rem1 = Inr rs"
    by (cases "snd rem1") (auto simp: get_all_rows_def)
  with None assms have rows: "rs = rows"
    and s1: "s1 = s\<lparr>cache := cache_store ttl (fst rem1) rows, fetches := fetches s + 1\<rparr>"
    by (auto simp: get_all_rows_def)
  have c: "cache s1 = Some (rows, fst rem1 + ttl)"
    by (simp add: s1 cache_store_def)
  have f: "fetches s1 = fetches s + 1"
    by (simp add: s1)
  have hit: "\<forall>t2 rem2. t2 < fst rem1 + ttl \<longrightarrow> get_all_rows ttl t2 rem2 s1 = (Inr rows, s1)"
    by (simp add: get_all_rows_def cache_lookup_def c)
  have miss: "\<forall>t2 rem2. fst rem1 + ttl \<le> t2 \<longrightarrow>
      fst (get_all_rows ttl t2 rem2 s1) = snd rem2
      \<and> fetches (snd (get_all_rows ttl t2 rem2 s1)) = fetches s1 + 1"
    by (auto simp: get_all_rows_def cache_lookup_def c split: sum.splits)
  from c f hit miss show ?thesis by simp
next
  case (Some v)
  with assms have v: "v = rows" and s1: "s1 = s"
    by (auto simp: get_all_rows_def)
  from Some obtain expires where c: "cache s = Some (v, expires)"
    by (auto simp: cache_lookup_def split: option.splits if_splits)
  have hit: "\<forall>t2 rem2. t2 < expires \<longrightarrow> get_all_rows ttl t2 rem2 s = (Inr rows, s)"
    by (simp add: get_all_rows_def cache_lookup_def c v)
  have miss: "\<forall>t2 rem2. expires \<le> t2 \<longrightarrow>
      fst (get_all_rows ttl t2 rem2 s) = snd rem2
      \<and> fetches (snd (get_all_rows ttl t2 rem2 s)) = fetches s + 1"
    by (auto simp: get_all_rows_def cache_lookup_def c split: sum.splits)
  from c v s1 Some hit miss show ?thesis by simp
qed

theorem cached_rows_within_ttl_witness:
  "get_all_rows 30 10 (11, Inr [Map.empty]) \<lparr>cache = None, fetches = 0\<rparr>
     = (Inr [Map.empty], \<lparr>cache = Some ([Map.empty], 41), fetches = 1\<rparr>)
   \<and> get_all_rows 30 40 (40, Inr []) \<lparr>cache = Some ([Map.empty], 41), fetches = 1\<rparr>
     = (Inr [Map.empty], \<lparr>cache = Some ([Map.empty], 41), fetches = 1\<rparr>)
   \<and> fst (get_all_rows 30 41 (42, Inr []) \<lparr>cache = Some ([Map.empty], 41), fetches = 1\<rparr>) = Inr []
   \<and> fetches (snd (get_all_rows 30 41 (42, Inr []) \<lparr>cache = Some ([Map.empty], 41), fetches = 1\<rparr>)) = 2"
proof -
  have h: "get_all_rows 30 10 (11, Inr [Map.empty]) \<lparr>cache = None, fetches = 0\<rparr>
     = (Inr [Map.empty], \<lparr>cache = Some ([Map.empty], 41), fetches = 1\<rparr>)"
    by (simp add: get_all_rows_def cache_lookup_def cache_store_def)
  from cached_rows_within_ttl [OF h] h show ?thesis by auto
qed

text \<open>
  C7. A call whose fetch would fail leaves the cache as it was: with no servable entry the
  failure goes to the caller and nothing is stored, and with a servable entry the entry is
  returned and the spreadsheet is not contacted.
\<close>

theorem failed_fetch_keeps_cache:
  assumes "snd rem = Inl e"
  shows "cache (snd (get_all_rows ttl now rem s)) = cache s
         \<and> (cache_lookup now (cache s) = None \<longrightarrow>
               get_all_rows ttl now rem s = (Inl e, s\<lparr>fetches := fetches s + 1\<rparr>))
         \<and> (\<forall>rows. cache_lookup now (cache s) = Some rows \<longrightarrow>
               get_all_rows ttl now rem s = (Inr rows, s))"
  using assms by (auto simp: get_all_rows_def split: option.splits)

theorem failed_fetch_keeps_cache_witness:
  "get_all_rows 30 100 (101, Inl (APIError ''503'')) \<lparr>cache = Some ([Map.empty], 40), fetches = 1\<rparr>
     = (Inl (APIError ''503''), \<lparr>cache = Some ([Map.empty], 40), fetches = 2\<rparr>)
   \<and> get_all_rows 30 39 (40, Inl (APIError ''503'')) \<lparr>cache = Some ([Map.empty], 40), fetches = 1\<rparr>
     = (Inr [Map.empty], \<lparr>cache = Some ([Map.empty], 40), fetches = 1\<rparr>)"
  using failed_fetch_keeps_cache [of "(101, Inl (APIError ''503''))" "APIError ''503''" 30 100
      "\<lparr>cache = Some ([Map.empty], 40), fetches = 1\<rparr>"]
    failed_fetch_keeps_cache [of "(40, Inl (APIError ''503''))" "APIError ''503''" 30 39
      "\<lparr>cache = Some ([Map.empty], 40), fetches = 1\<rparr>"]
  by (simp add: cache_lookup_def)

section \<open>Properties of the error handling\<close>

text \<open>
  C8. When reading the rows raises, both handlers end with an HTTP 500 whose detail is
  \<^verbatim>\<open>Failed to read sheet: \<close> followed by the message of the exception, so it contains it.
\<close>

theorem fetch_failure_is_500:
  assumes "get_all_rows ttl now rem s = (Inl e, s')"
  shows "get_dogs ulower ttl now rem s dog_name owner_name =
           (Inl (HTTPException 500 (''Failed to read sheet: '' @ str_exn e)), s')
         \<and> get_dog ttl now rem s dog_id =
           (Inl (HTTPException 500 (''Failed to read sheet: '' @ str_exn e)), s')
         \<and> sublist (str_exn e) (''Failed to read sheet: '' @ str_exn e)"
proof -
  have "sublist (str_exn e) (''Failed to read sheet: '' @ str_exn e)"
    by (rule sublist_append_leftI)
  moreover from assms have "get_dogs ulower ttl now rem s dog_name owner_name =
      (Inl (HTTPException 500 (''Failed to read sheet: '' @ str_exn e)), s')"
    by (simp add: get_dogs_def)
  moreover from assms have "get_dog ttl now rem s dog_id =
      (Inl (HTTPException 500 (''Failed to read sheet: '' @ str_exn e)), s')"
    by (simp add: get_dog_def)
  ultimately show ?thesis by blast
qed

theorem fetch_failure_is_500_witness:
  "get_dogs (\<lambda>s. s) 30 0 (2, Inl (APIError ''invalid_grant: Token has been expired or revoked.''))
       \<lparr>cache = None, fetches = 0\<rparr> (Some ''rex'') None
     = (Inl (HTTPException 500 ''Failed to read sheet: invalid_grant: Token has been expired or revoked.''),
        \<lparr>cache = None, fetches = 1\<rparr>)
   \<and> get_dog 30 0 (2, Inl (APIError ''invalid_grant: Token has been expired or revoked.''))
       \<lparr>cache = None, fetches = 0\<rparr> ''7''
     = (Inl (HTTPException 500 ''Failed to read sheet: invalid_grant: Token has been expired or revoked.''),
        \<lparr>cache = None, fetches = 1\<rparr>)"
proof -
  have h: "get_all_rows 30 0 (2, Inl (APIError ''invalid_grant: Token has been expired or revoked.''))
       \<lparr>cache = None, fetches = 0\<rparr>
     = (Inl (APIError ''invalid_grant: Token has been expired or revoked.''), \<lparr>cache = None, fetches = 1\<rparr>)"
    by (simp add: get_all_rows_def cache_lookup_def)
  from fetch_failure_is_500 [OF h, of "\<lambda>s. s" "Some ''rex''" None "''7''"] show ?thesis by simp
qed

end
